theory Spec2Isabelle
  imports Complex_Main
begin

section \<open>JavaScript strings\<close>

text \<open>
  A JavaScript string is a sequence of code units; it is modelled as a \<^typ>\<open>string\<close>, one
  \<^typ>\<open>char\<close> for each code unit, so the model covers the strings whose code units lie below
  256 (ASCII and Latin-1). \<open>s.length\<close> is \<^term>\<open>length s\<close>.
\<close>

text \<open>\<open>s.startsWith(k)\<close>: \<open>k\<close> is read off the front of \<open>s\<close>, code unit by code unit.\<close>

fun startsWith :: "string \<Rightarrow> string \<Rightarrow> bool" where
  "startsWith s [] = True"
| "startsWith [] (k # ks) = False"
| "startsWith (c # cs) (k # ks) = (c = k \<and> startsWith cs ks)"

text \<open>\<open>s.includes(k)\<close>: \<open>k\<close> occurs in \<open>s\<close> at some position (the empty string occurs everywhere).\<close>

fun includes_str :: "string \<Rightarrow> string \<Rightarrow> bool" where
  "includes_str [] k = (k = [])"
| "includes_str (c # cs) k = (startsWith (c # cs) k \<or> includes_str cs k)"

text \<open>\<open>s.substring(0, n)\<close> for an integer \<open>n\<close>: a negative \<open>n\<close> counts as 0.\<close>

definition substring0 :: "string \<Rightarrow> int \<Rightarrow> string" where
  "substring0 s n = take (nat n) s"

section \<open>JavaScript objects\<close>

text \<open>
  An object literal is an association list of its own properties. Reading \<open>obj[k]\<close> finds an
  own property first, then a member that every object literal inherits from
  \<open>Object.prototype\<close> (a built-in function, or for \<open>__proto__\<close> the prototype itself), and is
  \<open>undefined\<close> otherwise.
\<close>

datatype 'a js_prop = Own 'a | Inherited | Undefined

definition object_prototype_keys :: "string list" where
  "object_prototype_keys =
     [''constructor'', ''hasOwnProperty'', ''isPrototypeOf'', ''propertyIsEnumerable'',
      ''toLocaleString'', ''toString'', ''valueOf'', ''__proto__'',
      ''__defineGetter__'', ''__defineSetter__'', ''__lookupGetter__'', ''__lookupSetter__'']"

definition js_get :: "(string \<times> 'a) list \<Rightarrow> string \<Rightarrow> 'a js_prop" where
  "js_get obj k =
     (case map_of obj k of
        Some v \<Rightarrow> Own v
      | None \<Rightarrow> if k \<in> set object_prototype_keys then Inherited else Undefined)"

text \<open>
  \<open>x || y\<close>. An object and an inherited member are truthy; a string is truthy unless it is
  empty.
\<close>

definition or_obj :: "'a js_prop \<Rightarrow> 'a js_prop \<Rightarrow> 'a js_prop" where
  "or_obj x y = (case x of Undefined \<Rightarrow> y | _ \<Rightarrow> x)"

definition or_str :: "string js_prop \<Rightarrow> string js_prop \<Rightarrow> string js_prop" where
  "or_str x y = (case x of Undefined \<Rightarrow> y | Own s \<Rightarrow> if s = [] then y else x | Inherited \<Rightarrow> x)"

section \<open>models.js\<close>

record context_config =
  ctx_maxContextMessages :: int
  ctx_maxTokens :: int
  contextStrategy :: string

record model_config =
  provider :: string
  model_name :: string
  model_maxTokens :: int
  costPer1kTokens :: rat
  speed :: string
  quality :: string
  bestFor :: "string list"
  capabilities :: "string list"
  contextConfig :: context_config

definition MODEL_REGISTRY :: "(string \<times> model_config) list" where
  "MODEL_REGISTRY =
    [(''llama3-8b-8192'',
        \<lparr>provider = ''groq'', model_name = ''Llama 3 8B'', model_maxTokens = 8192,
         costPer1kTokens = 5 / 100000, speed = ''fast'', quality = ''good'',
         bestFor = [''short'', ''medium''],
         capabilities = [''chat'', ''analysis'', ''summarization''],
         contextConfig = \<lparr>ctx_maxContextMessages = 3, ctx_maxTokens = 4000,
                          contextStrategy = ''recent''\<rparr>\<rparr>),
     (''llama3-70b-8192'',
        \<lparr>provider = ''groq'', model_name = ''Llama 3 70B'', model_maxTokens = 8192,
         costPer1kTokens = 59 / 100000, speed = ''medium'', quality = ''excellent'',
         bestFor = [''medium'', ''long'', ''very_long''],
         capabilities = [''chat'', ''analysis'', ''summarization'', ''creation'', ''ideation''],
         contextConfig = \<lparr>ctx_maxContextMessages = 6, ctx_maxTokens = 8000,
                          contextStrategy = ''smart''\<rparr>\<rparr>),
     (''mixtral-8x7b-32768'',
        \<lparr>provider = ''groq'', model_name = ''Mixtral 8x7B'', model_maxTokens = 32768,
         costPer1kTokens = 24 / 100000, speed = ''medium'', quality = ''excellent'',
         bestFor = [''long'', ''very_long''],
         capabilities = [''chat'', ''analysis'', ''summarization'', ''creation'', ''ideation'',
                         ''conversion''],
         contextConfig = \<lparr>ctx_maxContextMessages = 8, ctx_maxTokens = 16000,
                          contextStrategy = ''comprehensive''\<rparr>\<rparr>),
     (''gpt-4'',
        \<lparr>provider = ''openai'', model_name = ''GPT-4'', model_maxTokens = 8192,
         costPer1kTokens = 3 / 100, speed = ''medium'', quality = ''excellent'',
         bestFor = [''medium'', ''long'', ''very_long''],
         capabilities = [''chat'', ''analysis'', ''summarization'', ''creation'', ''ideation'',
                         ''conversion''],
         contextConfig = \<lparr>ctx_maxContextMessages = 10, ctx_maxTokens = 6000,
                          contextStrategy = ''comprehensive''\<rparr>\<rparr>),
     (''claude-3-sonnet'',
        \<lparr>provider = ''anthropic'', model_name = ''Claude 3 Sonnet'', model_maxTokens = 200000,
         costPer1kTokens = 3 / 100, speed = ''medium'', quality = ''excellent'',
         bestFor = [''long'', ''very_long''],
         capabilities = [''chat'', ''analysis'', ''summarization'', ''creation'', ''ideation'',
                         ''conversion''],
         contextConfig = \<lparr>ctx_maxContextMessages = 12, ctx_maxTokens = 100000,
                          contextStrategy = ''comprehensive''\<rparr>\<rparr>)]"

definition MODEL_SELECTION_STRATEGIES :: "(string \<times> (string \<times> string) list) list" where
  "MODEL_SELECTION_STRATEGIES =
    [(''COST_OPTIMIZED'',
        [(''SHORT'', ''llama3-8b-8192''), (''MEDIUM'', ''llama3-8b-8192''),
         (''LONG'', ''llama3-70b-8192''), (''VERY_LONG'', ''llama3-70b-8192'')]),
     (''QUALITY_OPTIMIZED'',
        [(''SHORT'', ''llama3-70b-8192''), (''MEDIUM'', ''llama3-70b-8192''),
         (''LONG'', ''mixtral-8x7b-32768''), (''VERY_LONG'', ''claude-3-sonnet'')]),
     (''SPEED_OPTIMIZED'',
        [(''SHORT'', ''llama3-8b-8192''), (''MEDIUM'', ''llama3-8b-8192''),
         (''LONG'', ''llama3-8b-8192''), (''VERY_LONG'', ''llama3-70b-8192'')]),
     (''BALANCED'',
        [(''SHORT'', ''llama3-8b-8192''), (''MEDIUM'', ''llama3-70b-8192''),
         (''LONG'', ''mixtral-8x7b-32768''), (''VERY_LONG'', ''llama3-70b-8192'')])]"

text \<open>
  The ModelManager: its constructor keeps the strategy's name and reads the strategy's table,
  falling back to the BALANCED table when the name has none.
\<close>

record model_manager =
  strategy :: string
  models :: "(string \<times> string) list js_prop"

definition ModelManager :: "string \<Rightarrow> model_manager" where
  "ModelManager s =
     \<lparr>strategy = s,
      models = or_obj (js_get MODEL_SELECTION_STRATEGIES s)
                      (js_get MODEL_SELECTION_STRATEGIES ''BALANCED'')\<rparr>"

text \<open>
  \<open>getModelForComplexity\<close>, on the strategy table that \<open>this.models\<close> holds:
  \<open>this.models[complexity] || this.models.SHORT\<close>.
\<close>

definition getModelForComplexity :: "(string \<times> string) list \<Rightarrow> string \<Rightarrow> string js_prop" where
  "getModelForComplexity tbl complexity = or_str (js_get tbl complexity) (js_get tbl ''SHORT'')"

definition getModelConfig :: "string \<Rightarrow> model_config js_prop" where
  "getModelConfig modelId =
     or_obj (js_get MODEL_REGISTRY modelId) (js_get MODEL_REGISTRY ''llama3-8b-8192'')"

definition getAvailableModels :: "string list" where
  "getAvailableModels = map fst MODEL_REGISTRY"

text \<open>
  \<open>estimateCost\<close>, in exact rational arithmetic; \<open>None\<close> is the number \<open>NaN\<close>. An inherited
  member has no \<open>costPer1kTokens\<close>, so the products are \<open>NaN\<close>. (\<open>getModelConfig\<close> is never
  \<open>undefined\<close>: the registry holds the default model.)
\<close>

definition estimateCost :: "string \<Rightarrow> rat \<Rightarrow> rat \<Rightarrow> rat option" where
  "estimateCost modelId inputTokens outputTokens =
     (case getModelConfig modelId of
        Own config \<Rightarrow>
          (let inputCost = (inputTokens / 1000) * costPer1kTokens config;
               outputCost = (outputTokens / 1000) * (costPer1kTokens config * 2)
           in Some (inputCost + outputCost))
      | Inherited \<Rightarrow> None
      | Undefined \<Rightarrow> None)"

section \<open>contextManager.js\<close>

record message =
  role :: string
  content :: string

text \<open>\<open>xs.slice(start)\<close> for an integer \<open>start\<close>: a negative \<open>start\<close> counts from the end.\<close>

definition slice_from :: "'a list \<Rightarrow> int \<Rightarrow> 'a list" where
  "slice_from xs start =
     (let len = int (length xs);
          k = (if start < 0 then max (len + start) 0 else min start len)
      in drop (nat k) xs)"

definition selectRecentMessages :: "'a list \<Rightarrow> int \<Rightarrow> 'a list" where
  "selectRecentMessages messages maxContextMessages = slice_from messages (- maxContextMessages)"

text \<open>
  The next two read \<open>messages[0]\<close> and \<open>messages[Math.floor(messages.length / 2)]\<close>; both
  indices are in range on a non-empty list, and \<open>selectContextMessages\<close> calls them on
  non-empty lists only.
\<close>

definition selectSmartMessages :: "'a list \<Rightarrow> int \<Rightarrow> 'a list" where
  "selectSmartMessages messages maxContextMessages =
     (if int (length messages) \<le> maxContextMessages then messages
      else
        let recentMessages = slice_from messages (- maxContextMessages + 1);
            firstMessage = messages ! 0
        in firstMessage # recentMessages)"

definition selectComprehensiveMessages :: "'a list \<Rightarrow> int \<Rightarrow> 'a list" where
  "selectComprehensiveMessages messages maxContextMessages =
     (if int (length messages) \<le> maxContextMessages then messages
      else
        let first = messages ! 0;
            middle = messages ! (length messages div 2);
            recent = slice_from messages (- maxContextMessages + 2)
        in first # middle # recent)"

definition selectMinimalMessages :: "'a list \<Rightarrow> int \<Rightarrow> 'a list" where
  "selectMinimalMessages messages maxContextMessages =
     (let minimalCount = min maxContextMessages 2 in slice_from messages (- minimalCount))"

text \<open>The \<open>switch\<close> of \<open>selectContextMessages\<close> on the strategy's name.\<close>

definition selectByStrategy :: "string \<Rightarrow> 'a list \<Rightarrow> int \<Rightarrow> 'a list" where
  "selectByStrategy strat messages maxContextMessages =
     (if strat = ''recent'' then selectRecentMessages messages maxContextMessages
      else if strat = ''smart'' then selectSmartMessages messages maxContextMessages
      else if strat = ''comprehensive'' then selectComprehensiveMessages messages maxContextMessages
      else if strat = ''minimal'' then selectMinimalMessages messages maxContextMessages
      else selectRecentMessages messages maxContextMessages)"

text \<open>
  A thrown exception: a TypeError raised by the engine (reading a member of \<open>undefined\<close> or
  \<open>null\<close>, calling what is not a function), or the error a promise was rejected with, kept
  by its \<open>message\<close>.
\<close>

datatype js_error = TypeError | Rejected string

text \<open>
  \<open>selectContextMessages\<close>: the strategy is read from the model's configuration. Reading
  \<open>contextConfig.contextStrategy\<close> of an inherited member (which has no \<open>contextConfig\<close>)
  throws a TypeError.
\<close>

definition selectContextMessages :: "'a list \<Rightarrow> string \<Rightarrow> int \<Rightarrow> js_error + 'a list" where
  "selectContextMessages messages model maxContextMessages =
     (if messages = [] then Inr []
      else case getModelConfig model of
             Own config \<Rightarrow>
               Inr (selectByStrategy (contextStrategy (contextConfig config)) messages
                      maxContextMessages)
           | Inherited \<Rightarrow> Inl TypeError
           | Undefined \<Rightarrow> Inl TypeError)"

text \<open>\<open>estimateTokenCount\<close>: \<open>Math.ceil(text.length / 4)\<close>.\<close>

definition estimateTokenCount :: "string \<Rightarrow> int" where
  "estimateTokenCount text = \<lceil>rat_of_nat (length text) / 4\<rceil>"

text \<open>
  \<open>Math.floor(maxTokens * 0.7)\<close> for a token budget that is a natural number below \<open>2^53\<close>.
  The literal \<open>0.7\<close> is the double \<open>6305039478318694 / 2^53\<close>, and the product is rounded
  to the nearest double (53 significant bits, ties to even) before the floor is taken; so the
  result can lie one below \<open>7 * maxTokens div 10\<close>, as for \<open>maxTokens = 90\<close>, where it is 62.
\<close>

fun bit_length :: "nat \<Rightarrow> nat" where
  "bit_length n = (if n = 0 then 0 else Suc (bit_length (n div 2)))"

declare bit_length.simps [simp del]

definition round_to_53_bits :: "nat \<Rightarrow> nat" where
  "round_to_53_bits p =
     (let b = bit_length p in
      if b \<le> 53 then p
      else
        let s = b - 53; q = p div 2 ^ s; r = p mod 2 ^ s; h = 2 ^ (s - 1)
        in (if h < r \<or> (r = h \<and> odd q) then q + 1 else q) * 2 ^ s)"

definition times_0_7 :: "nat \<Rightarrow> rat" where
  "times_0_7 n = rat_of_nat (round_to_53_bits (n * 6305039478318694)) / 2 ^ 53"

definition maxContextTokens_of :: "nat \<Rightarrow> int" where
  "maxContextTokens_of maxTokens = \<lfloor>times_0_7 maxTokens\<rfloor>"

text \<open>
  The loop of \<open>optimizeContext\<close>, from the most recent message backwards: \<open>pending\<close> holds the
  messages not yet visited, most recent first; \<open>optimizedMessages\<close> is in chronological order
  (\<open>unshift\<close> puts a message in front).
\<close>

fun optimizeLoop :: "int \<Rightarrow> message list \<Rightarrow> int \<Rightarrow> message list \<Rightarrow> message list" where
  "optimizeLoop maxContextTokens [] totalTokens optimizedMessages = optimizedMessages"
| "optimizeLoop maxContextTokens (msg # pending) totalTokens optimizedMessages =
     (let messageTokens = estimateTokenCount (content msg) in
      if totalTokens + messageTokens \<le> maxContextTokens
      then optimizeLoop maxContextTokens pending (totalTokens + messageTokens)
             (msg # optimizedMessages)
      else
        let remainingTokens = maxContextTokens - totalTokens;
            maxChars = remainingTokens * 4
        in if 100 < maxChars
           then msg\<lparr>content := substring0 (content msg) maxChars @ ''...''\<rparr> # optimizedMessages
           else optimizedMessages)"

text \<open>
  \<open>optimizeContext\<close>. The model's configuration is looked up and not used, so the model
  identifier has no effect.
\<close>

definition optimizeContext :: "message list \<Rightarrow> string \<Rightarrow> nat \<Rightarrow> message list" where
  "optimizeContext contextMessages model maxTokens =
     optimizeLoop (maxContextTokens_of maxTokens) (rev contextMessages) 0 []"

text \<open>The total that \<open>getContextStats\<close> reports: the sum of the estimated token counts.\<close>

definition totalTokens_of :: "message list \<Rightarrow> int" where
  "totalTokens_of messages = (\<Sum>m \<leftarrow> messages. estimateTokenCount (content m))"

definition buildMessagesArray :: "string \<Rightarrow> message list \<Rightarrow> string \<Rightarrow> message list" where
  "buildMessagesArray systemPrompt contextMessages userQuery =
     [\<lparr>role = ''system'', content = systemPrompt\<rparr>] @ contextMessages
       @ [\<lparr>role = ''user'', content = userQuery\<rparr>]"

text \<open>
  The chat history: an optional object with an optional sequence of turns, each a user text
  and an optional response. \<open>if (msg.response)\<close> holds for a response that is present and
  not the empty string.
\<close>

record turn =
  user :: string
  response :: "string option"

record chat_history =
  history_messages :: "turn list option"

definition has_response :: "turn \<Rightarrow> bool" where
  "has_response t = (case response t of None \<Rightarrow> False | Some r \<Rightarrow> r \<noteq> [])"

fun flatten_turns :: "turn list \<Rightarrow> message list" where
  "flatten_turns [] = []"
| "flatten_turns (msg # rest) =
     (\<lparr>role = ''user'', content = user msg\<rparr>
      # (case response msg of
           None \<Rightarrow> []
         | Some r \<Rightarrow> if r \<noteq> [] then [\<lparr>role = ''assistant'', content = r\<rparr>] else []))
     @ flatten_turns rest"

definition processChatHistory :: "chat_history option \<Rightarrow> message list" where
  "processChatHistory chatHistory =
     (case chatHistory of
        None \<Rightarrow> []
      | Some h \<Rightarrow> (case history_messages h of None \<Rightarrow> [] | Some turns \<Rightarrow> flatten_turns turns))"

section \<open>taskClassifier.js\<close>

text \<open>
  \<open>toLowerCase\<close> on code units below 256: the capital letters \<open>A\<close> to \<open>Z\<close> and the Latin-1
  capitals (192 to 222 without the multiplication sign 215) move up by 32.
\<close>

definition lower_char :: "char \<Rightarrow> char" where
  "lower_char c =
     (let n = (of_char c :: nat)
      in if (65 \<le> n \<and> n \<le> 90) \<or> (192 \<le> n \<and> n \<le> 222 \<and> n \<noteq> 215)
         then char_of (n + 32) else c)"

definition toLowerCase :: "string \<Rightarrow> string" where
  "toLowerCase s = map lower_char s"

text \<open>
  \<open>trim\<close> removes white space and line terminators at both ends; below 256 these are the
  code units 9 to 13, 32 and 160.
\<close>

definition is_space :: "char \<Rightarrow> bool" where
  "is_space c =
     (let n = (of_char c :: nat) in (9 \<le> n \<and> n \<le> 13) \<or> n = 32 \<or> n = 160)"

definition trim :: "string \<Rightarrow> string" where
  "trim s = rev (dropWhile is_space (rev (dropWhile is_space s)))"

record task_config =
  task_name :: string
  description :: string
  task_keywords :: "string list"
  task_maxTokens :: nat
  task_temperature :: rat

definition TASK_TYPES :: "(string \<times> task_config) list" where
  "TASK_TYPES =
    [(''LLM_Summary'',
        \<lparr>task_name = ''Summary'', description = ''Summarize or condense information'',
         task_keywords = [''summary'', ''summarise'', ''summarize'', ''condense'', ''brief'',
                     ''overview''],
         task_maxTokens = 2000, task_temperature = 3 / 10\<rparr>),
     (''LLM_Creation'',
        \<lparr>task_name = ''Creation'', description = ''Generate creative content'',
         task_keywords = [''create'', ''generate'', ''write'', ''compose'', ''craft'', ''develop''],
         task_maxTokens = 1500, task_temperature = 7 / 10\<rparr>),
     (''LLM_Ideation'',
        \<lparr>task_name = ''Ideation'', description = ''Brainstorm ideas and suggestions'',
         task_keywords = [''ideate'', ''brainstorm'', ''suggest'', ''ideas'', ''options'',
                     ''alternatives''],
         task_maxTokens = 1200, task_temperature = 5 / 10\<rparr>),
     (''LLM_Analysis'',
        \<lparr>task_name = ''Analysis'', description = ''Analyze, explain, or evaluate content'',
         task_keywords = [''analyze'', ''analyse'', ''analysis'', ''explain'', ''compare'',
                     ''evaluate'', ''assess'', ''examine'', ''study'', ''review''],
         task_maxTokens = 2500, task_temperature = 2 / 10\<rparr>),
     (''LLM_Converter'',
        \<lparr>task_name = ''Converter'', description = ''Convert or transform content'',
         task_keywords = [''convert'', ''transform'', ''translate'', ''reformat'', ''adapt'',
                     ''modify''],
         task_maxTokens = 1500, task_temperature = 4 / 10\<rparr>),
     (''LLM_Default'',
        \<lparr>task_name = ''General'', description = ''General conversation and assistance'',
         task_keywords = [], task_maxTokens = 1500, task_temperature = 3 / 10\<rparr>)]"

text \<open>The thresholds of models.js that the analyzer reads.\<close>

record text_length_thresholds =
  th_SHORT :: nat
  th_MEDIUM :: nat
  th_LONG :: nat
  th_VERY_LONG :: nat

definition TEXT_LENGTH_THRESHOLDS :: text_length_thresholds where
  "TEXT_LENGTH_THRESHOLDS =
     \<lparr>th_SHORT = 100, th_MEDIUM = 500, th_LONG = 1000, th_VERY_LONG = 2000\<rparr>"

definition analyticalKeywords :: "string list" where
  "analyticalKeywords =
     [''analyze'', ''analyse'', ''compare'', ''evaluate'', ''summarize'', ''summarise'',
      ''explain'', ''discuss'', ''research'', ''study'', ''review'', ''assess'']"

text \<open>
  \<open>TextComplexityAnalyzer.analyze\<close> on a string. Of the result the field \<open>complexity\<close> is
  modelled; \<open>reason\<close> and \<open>stats\<close> (word, sentence and paragraph counts and a score) are
  computed beside it and never read back into it. \<open>!text\<close> holds for the empty string.
\<close>

record analysis =
  complexity :: string

definition analyze :: "string \<Rightarrow> analysis" where
  "analyze text =
     (if text = [] then \<lparr>complexity = ''SHORT''\<rparr>
      else
        let len = length text;
            bucket =
              (if len \<le> th_SHORT TEXT_LENGTH_THRESHOLDS then ''SHORT''
               else if len \<le> th_MEDIUM TEXT_LENGTH_THRESHOLDS then ''MEDIUM''
               else if len \<le> th_LONG TEXT_LENGTH_THRESHOLDS then ''LONG''
               else ''VERY_LONG'');
            hasAnalyticalContent =
              list_ex (\<lambda>keyword. includes_str (toLowerCase text) keyword) analyticalKeywords
        in if hasAnalyticalContent \<and> bucket = ''SHORT''
           then \<lparr>complexity = ''MEDIUM''\<rparr>
           else \<lparr>complexity = bucket\<rparr>)"

text \<open>
  \<open>determineTaskType\<close>: the task types are visited in the order of \<open>TASK_TYPES\<close>, the default
  is skipped, and the first keyword found in the query decides.
\<close>

fun first_matching_task :: "string \<Rightarrow> (string \<times> task_config) list \<Rightarrow> string option" where
  "first_matching_task query [] = None"
| "first_matching_task query ((taskType, taskConfig) # rest) =
     (if taskType = ''LLM_Default'' then first_matching_task query rest
      else if list_ex (\<lambda>keyword. includes_str query keyword) (task_keywords taskConfig)
      then Some taskType
      else first_matching_task query rest)"

definition determineTaskType :: "string \<Rightarrow> string" where
  "determineTaskType queryText =
     (let query = trim (toLowerCase queryText)
      in case first_matching_task query TASK_TYPES of
           Some taskType \<Rightarrow> taskType
         | None \<Rightarrow> ''LLM_Default'')"

definition getModelForTask :: "string \<Rightarrow> string \<Rightarrow> string" where
  "getModelForTask task complexity_level = ''llama3-8b-8192''"

section \<open>HTTP and JSON\<close>

text \<open>
  A JSON value as \<open>JSON.parse\<close> returns it; an object lists each own property once. A
  member that is missing reads as \<open>undefined\<close>, which is \<open>None\<close> of \<^typ>\<open>'a option\<close>.
\<close>

datatype json =
  JNull | JBool bool | JNum rat | JStr string | JArr "json list" | JObj "(string \<times> json) list"

text \<open>
  The outcome of \<open>fetch\<close>, and of the body readers \<open>text()\<close> and \<open>json()\<close> of a response:
  \<open>Inl msg\<close> when the promise is rejected with an error whose message is \<open>msg\<close>.
  \<open>response.ok\<close> holds for the statuses 200 to 299.
\<close>

record http_response =
  status :: nat
  text_body :: "string + string"
  json_body :: "string + json"

definition ok :: "http_response \<Rightarrow> bool" where
  "ok r = (200 \<le> status r \<and> status r \<le> 299)"

record request_body =
  rb_model :: string
  rb_max_tokens :: nat
  rb_temperature :: rat
  rb_messages :: "message list"

record http_request =
  url :: "string option"
  http_method :: string
  headers :: "(string \<times> string) list"
  body :: request_body

text \<open>
  The members the classifier reads from the parsed reply. None of them is inherited from a
  prototype, so an object gives its own property or \<open>undefined\<close>; an array and a string have
  a \<open>length\<close> and an element at index 0; a number and a boolean have none of them; reading a
  member of \<open>null\<close> or \<open>undefined\<close> throws.
\<close>

datatype member = Choices | Length | Index0 | Message | Content

fun member_name :: "member \<Rightarrow> string" where
  "member_name Choices = ''choices''"
| "member_name Length = ''length''"
| "member_name Index0 = ''0''"
| "member_name Message = ''message''"
| "member_name Content = ''content''"

fun get_member :: "json option \<Rightarrow> member \<Rightarrow> js_error + json option" where
  "get_member None m = Inl TypeError"
| "get_member (Some JNull) m = Inl TypeError"
| "get_member (Some (JObj props)) m = Inr (map_of props (member_name m))"
| "get_member (Some (JArr xs)) Length = Inr (Some (JNum (of_nat (length xs))))"
| "get_member (Some (JArr xs)) Index0 = Inr (case xs of [] \<Rightarrow> None | x # _ \<Rightarrow> Some x)"
| "get_member (Some (JArr xs)) m = Inr None"
| "get_member (Some (JStr s)) Length = Inr (Some (JNum (of_nat (length s))))"
| "get_member (Some (JStr s)) Index0 = Inr (case s of [] \<Rightarrow> None | c # _ \<Rightarrow> Some (JStr [c]))"
| "get_member (Some (JStr s)) m = Inr None"
| "get_member (Some (JNum r)) m = Inr None"
| "get_member (Some (JBool b)) m = Inr None"

fun truthy :: "json option \<Rightarrow> bool" where
  "truthy None = False"
| "truthy (Some JNull) = False"
| "truthy (Some (JBool b)) = b"
| "truthy (Some (JNum r)) = (r \<noteq> 0)"
| "truthy (Some (JStr s)) = (s \<noteq> [])"
| "truthy (Some (JArr xs)) = True"
| "truthy (Some (JObj props)) = True"

text \<open>
  \<open>v > 0\<close>. \<open>undefined\<close> converts to \<open>NaN\<close>, \<open>null\<close> to 0, \<open>true\<close> to 1. A string, an array
  or an object is first converted to a number by the engine; that conversion is not
  modelled, and \<open>coerced_gt0 v\<close> stands for the outcome of the comparison.
\<close>

fun gt_zero :: "(json \<Rightarrow> bool) \<Rightarrow> json option \<Rightarrow> bool" where
  "gt_zero coerced_gt0 None = False"
| "gt_zero coerced_gt0 (Some JNull) = False"
| "gt_zero coerced_gt0 (Some (JBool b)) = b"
| "gt_zero coerced_gt0 (Some (JNum r)) = (0 < r)"
| "gt_zero coerced_gt0 (Some v) = coerced_gt0 v"

text \<open>\<open>v.trim()\<close>: only a string has the method.\<close>

fun call_trim :: "json option \<Rightarrow> js_error + string" where
  "call_trim (Some (JStr s)) = Inr (trim s)"
| "call_trim v = Inl TypeError"

text \<open>Sequencing of steps that may throw.\<close>

definition and_then :: "'e + 'a \<Rightarrow> ('a \<Rightarrow> 'e + 'b) \<Rightarrow> 'e + 'b" where
  "and_then r f = (case r of Inl e \<Rightarrow> Inl e | Inr v \<Rightarrow> f v)"

section \<open>TaskClassifier.classifyQuery\<close>

definition classification_prompt :: "string \<Rightarrow> string" where
  "classification_prompt queryText =
     ''Classify the following user query into one of the following task types: ''
     @ ''LLM_Summary, LLM_Creation, LLM_Ideation, LLM_Analysis, LLM_Converter, or LLM_Default. ''
     @ ''If the query asks to ''
     @ [CHR 0x27] @ ''analyze'' @ [CHR 0x27] @ '', ''
     @ [CHR 0x27] @ ''analyse'' @ [CHR 0x27] @ '', ''
     @ [CHR 0x27] @ ''analysis'' @ [CHR 0x27] @ '', ''
     @ [CHR 0x27] @ ''explain'' @ [CHR 0x27] @ '', ''
     @ [CHR 0x27] @ ''compare'' @ [CHR 0x27] @ '', ''
     @ [CHR 0x27] @ ''evaluate'' @ [CHR 0x27] @ '', ''
     @ [CHR 0x27] @ ''assess'' @ [CHR 0x27]
     @ '', or similar, classify as LLM_Analysis. ''
     @ ''Only return the task type.'' @ [CHR 0x0A, CHR 0x0A] @ ''User query: ''
     @ queryText @ [CHR 0x0A] @ ''Task type:''"

definition classification_request :: "string \<Rightarrow> http_request" where
  "classification_request queryText =
     \<lparr>url = Some ''/api/llm'', http_method = ''POST'',
      headers = [(''Content-Type'', ''application/json'')],
      body = \<lparr>rb_model = ''llama3-8b-8192'', rb_max_tokens = 10, rb_temperature = 0,
               rb_messages =
                 [\<lparr>role = ''system'',
                   content = ''You are a helpful AI assistant that classifies user queries.''\<rparr>,
                  \<lparr>role = ''user'', content = classification_prompt queryText\<rparr>]\<rparr>\<rparr>"

text \<open>
  The statements under \<open>if (response.ok)\<close>, once \<open>result\<close> is parsed: \<open>Some task\<close> when the
  task is assigned, \<open>None\<close> when the inner \<open>if\<close> is skipped, an error when a step throws.
\<close>

definition read_task :: "(json \<Rightarrow> bool) \<Rightarrow> json \<Rightarrow> js_error + string option" where
  "read_task coerced_gt0 result =
     and_then (get_member (Some result) Choices) (\<lambda>choices.
       if \<not> truthy choices then Inr None
       else
         and_then (get_member choices Length) (\<lambda>len.
           if \<not> gt_zero coerced_gt0 len then Inr None
           else
             and_then (get_member choices Index0) (\<lambda>choice0.
             and_then (get_member choice0 Message) (\<lambda>msg.
             and_then (get_member msg Content) (\<lambda>cont.
             and_then (call_trim cont) (\<lambda>task. Inr (Some task)))))))"

text \<open>
  The network as the classifier sees it: \<open>respond\<close> is what \<open>fetch\<close> resolves or rejects
  with for a request, and \<open>sent\<close> lists the requests sent so far, in order. A call of \<open>fetch\<close>
  sends its request, which appends it to \<open>sent\<close>, and yields the outcome.
\<close>

record network =
  respond :: "http_request \<Rightarrow> string + http_response"
  sent :: "http_request list"

definition net_fetch :: "http_request \<Rightarrow> network \<Rightarrow> (string + http_response) \<times> network" where
  "net_fetch req net = (respond net req, net\<lparr>sent := sent net @ [req]\<rparr>)"

text \<open>The \<open>try\<close> block: the call of \<open>fetch\<close> and the reading of its response.\<close>

definition classify_try ::
  "(json \<Rightarrow> bool) \<Rightarrow> http_request \<Rightarrow> network \<Rightarrow> (js_error + string option) \<times> network" where
  "classify_try coerced_gt0 req net =
     (case net_fetch req net of
        (outcome, net') \<Rightarrow>
          (case outcome of
             Inl msg \<Rightarrow> (Inl (Rejected msg), net')
           | Inr resp \<Rightarrow>
               if ok resp
               then (case json_body resp of
                       Inl msg \<Rightarrow> (Inl (Rejected msg), net')
                     | Inr result \<Rightarrow> (read_task coerced_gt0 result, net'))
               else (Inr None, net')))"

record classification =
  cls_task :: string
  cls_model :: "string js_prop"
  cls_complexity :: string

text \<open>
  \<open>classifyQuery\<close> returns the classification together with the network as it has left
  it. For the empty query the model is \<open>getModelForComplexity("SHORT")\<close> of the manager; a
  manager whose \<open>models\<close> is an inherited member has no \<open>SHORT\<close>, which gives \<open>undefined\<close>.
\<close>

definition classifyQuery ::
  "network \<Rightarrow> (json \<Rightarrow> bool) \<Rightarrow> model_manager \<Rightarrow> string \<Rightarrow> classification \<times> network" where
  "classifyQuery net coerced_gt0 modelManager queryText =
     (if queryText = []
      then (\<lparr>cls_task = ''LLM_Default'',
             cls_model = (case models modelManager of
                            Own tbl \<Rightarrow> getModelForComplexity tbl ''SHORT''
                          | Inherited \<Rightarrow> Undefined
                          | Undefined \<Rightarrow> Undefined),
             cls_complexity = ''SHORT''\<rparr>, net)
      else
        let complexityAnalysis = analyze queryText;
            task0 = determineTaskType queryText;
            (task, net') =
              (if task0 = ''LLM_Default''
               then
                 (case classify_try coerced_gt0 (classification_request queryText) net of
                    (tried, net1) \<Rightarrow>
                      (case tried of
                         Inr (Some t) \<Rightarrow> t
                       | Inr None \<Rightarrow> task0
                       | Inl e \<Rightarrow> ''LLM_Default'',
                       net1))
               else (task0, net))
        in (\<lparr>cls_task = task,
              cls_model = Own (getModelForTask task (complexity complexityAnalysis)),
              cls_complexity = complexity complexityAnalysis\<rparr>, net'))"





section \<open>LLMClient\<close>

definition getProviderFromModel :: "string \<Rightarrow> string" where
  "getProviderFromModel model =
     (if includes_str model ''llama'' \<or> includes_str model ''mixtral'' then ''groq''
      else if includes_str model ''gpt'' then ''openai''
      else if includes_str model ''claude'' then ''anthropic''
      else ''groq'')"

text \<open>
  The client holds an endpoint and an API key for each provider; a key that is \<open>null\<close> is
  \<open>None\<close>. The constructor sets the three endpoints and no key.
\<close>

record llm_client =
  endpoints :: "(string \<times> string) list"
  apiKeys :: "(string \<times> string option) list"

definition LLMClient :: llm_client where
  "LLMClient =
     \<lparr>endpoints = [(''groq'', ''https://api.groq.com/openai/v1/chat/completions''),
                   (''openai'', ''/api/openai''), (''anthropic'', ''/api/anthropic'')],
      apiKeys = [(''groq'', None), (''openai'', None), (''anthropic'', None)]\<rparr>"

text \<open>
  \<open>getApiKey\<close> and the endpoint \<open>this.endpoints[provider] || this.endpoints.groq\<close>, for the
  three provider names that \<open>getProviderFromModel\<close> returns (none of them is inherited).
\<close>

definition getApiKey :: "llm_client \<Rightarrow> string \<Rightarrow> string option" where
  "getApiKey client prov = (case map_of (apiKeys client) prov of None \<Rightarrow> None | Some k \<Rightarrow> k)"

definition endpoint_for :: "llm_client \<Rightarrow> string \<Rightarrow> string option" where
  "endpoint_for client prov =
     (case map_of (endpoints client) prov of
        None \<Rightarrow> map_of (endpoints client) ''groq''
      | Some e \<Rightarrow> if e \<noteq> [] then Some e else map_of (endpoints client) ''groq'')"

record llm_params =
  p_model :: string
  p_messages :: "message list"
  p_maxTokens :: nat
  p_temperature :: rat
  p_task :: string
  p_complexity :: string
  p_reason :: string
  p_contextMessages :: "message list option"

definition callLLM_request :: "llm_client \<Rightarrow> llm_params \<Rightarrow> http_request" where
  "callLLM_request client params =
     (let prov = getProviderFromModel (p_model params);
          endpoint = endpoint_for client prov;
          apiKey = getApiKey client prov
      in \<lparr>url = endpoint, http_method = ''POST'',
          headers =
            (''Content-Type'', ''application/json'')
            # (case apiKey of
                 None \<Rightarrow> []
               | Some k \<Rightarrow> if k \<noteq> [] then [(''Authorization'', ''Bearer '' @ k)] else []),
          body = \<lparr>rb_model = p_model params, rb_max_tokens = p_maxTokens params,
                   rb_temperature = p_temperature params, rb_messages = p_messages params\<rparr>\<rparr>)"

text \<open>
  An envelope is an object, read by its keys. The spread \<open>...result\<close> copies the own
  properties of the parsed body: those of an object, the elements of an array and the
  characters of a string under their indices, nothing of any other value.
\<close>

type_synonym envelope = "string \<Rightarrow> json option"

fun string_of_nat :: "nat \<Rightarrow> string" where
  "string_of_nat n =
     (if n < 10 then [char_of (48 + n)]
      else string_of_nat (n div 10) @ [char_of (48 + n mod 10)])"

declare string_of_nat.simps [simp del]

fun spread :: "json \<Rightarrow> envelope" where
  "spread (JObj props) = map_of props"
| "spread (JArr xs) = map_of (zip (map string_of_nat [0..<length xs]) xs)"
| "spread (JStr s) = map_of (zip (map string_of_nat [0..<length s]) (map (\<lambda>c. JStr [c]) s))"
| "spread v = Map.empty"

text \<open>\<open>params.contextMessages?.length || 0\<close>.\<close>

definition context_count :: "llm_params \<Rightarrow> nat" where
  "context_count params =
     (case p_contextMessages params of None \<Rightarrow> 0 | Some ms \<Rightarrow> length ms)"

definition metadata :: "llm_params \<Rightarrow> bool \<Rightarrow> (string \<times> json) list" where
  "metadata params success =
     [(''temperature'', JNum (p_temperature params)),
      (''model'', JStr (p_model params)),
      (''task'', JStr (p_task params)),
      (''complexity'', JStr (p_complexity params)),
      (''reason'', JStr (p_reason params)),
      (''contextMessages'', JNum (of_nat (context_count params))),
      (''success'', JBool success)]"

definition createSuccessResponse :: "json \<Rightarrow> llm_params \<Rightarrow> envelope" where
  "createSuccessResponse result params = spread result ++ map_of (metadata params True)"

definition createErrorResponse :: "string \<Rightarrow> string \<Rightarrow> llm_params \<Rightarrow> envelope" where
  "createErrorResponse err details params =
     map_of ([(''error'', JStr err), (''details'', JStr details)] @ metadata params False)"

text \<open>
  The \<open>try\<close> block of \<open>callLLM\<close>: \<open>Inl msg\<close> when an exception with the message \<open>msg\<close>
  leaves it. \<open>callLLM\<close> catches every exception of the block; \<open>Inl\<close> would be an exception
  that leaves \<open>callLLM\<close> itself.
\<close>

definition callLLM_try ::
  "(http_request \<Rightarrow> string + http_response) \<Rightarrow> llm_client \<Rightarrow> llm_params
     \<Rightarrow> string + envelope" where
  "callLLM_try fetch client params =
     (case fetch (callLLM_request client params) of
        Inl msg \<Rightarrow> Inl msg
      | Inr resp \<Rightarrow>
          if \<not> ok resp
          then (case text_body resp of
                  Inl msg \<Rightarrow> Inl msg
                | Inr errorText \<Rightarrow>
                    Inr (createErrorResponse ''LLM call failed'' errorText params))
          else (case json_body resp of
                  Inl msg \<Rightarrow> Inl msg
                | Inr result \<Rightarrow> Inr (createSuccessResponse result params)))"

definition callLLM ::
  "(http_request \<Rightarrow> string + http_response) \<Rightarrow> llm_client \<Rightarrow> llm_params
     \<Rightarrow> string + envelope" where
  "callLLM fetch client params =
     (case callLLM_try fetch client params of
        Inr env \<Rightarrow> Inr env
      | Inl msg \<Rightarrow> Inr (createErrorResponse ''LLM call error'' msg params))"

section \<open>Strings: occurrences\<close>

lemma startsWith_iff: "startsWith s k \<longleftrightarrow> (\<exists>r. s = k @ r)"
  by (induction s k rule: startsWith.induct) auto

lemma includes_iff: "includes_str s k \<longleftrightarrow> (\<exists>p r. s = p @ k @ r)"
proof (induction s)
  case Nil
  then show ?case by simp
next
  case (Cons c cs)
  show ?case
  proof
    assume "includes_str (c # cs) k"
    then consider "startsWith (c # cs) k" | "includes_str cs k" by auto
    then show "\<exists>p r. c # cs = p @ k @ r"
    proof cases
      case 1
      then obtain r where "c # cs = k @ r" by (auto simp: startsWith_iff)
      then have "c # cs = [] @ k @ r" by simp
      then show ?thesis by blast
    next
      case 2
      with Cons obtain p r where "cs = p @ k @ r" by auto
      then have "c # cs = (c # p) @ k @ r" by simp
      then show ?thesis by blast
    qed
  next
    assume "\<exists>p r. c # cs = p @ k @ r"
    then obtain p r where e: "c # cs = p @ k @ r" by blast
    show "includes_str (c # cs) k"
    proof (cases p)
      case Nil
      with e have "startsWith (c # cs) k" by (auto simp: startsWith_iff)
      then show ?thesis by simp
    next
      case (Cons a p')
      with e have "cs = p' @ k @ r" by simp
      with Cons.IH have "includes_str cs k" by blast
      then show ?thesis by simp
    qed
  qed
qed

text \<open>
  Claim C6. The provider is found by the first rule that applies: an identifier that contains
  \<open>llama\<close> or \<open>mixtral\<close> goes to groq; otherwise one that contains \<open>gpt\<close> goes to openai;
  otherwise one that contains \<open>claude\<close> goes to anthropic; every other identifier goes to
  groq. In particular \<open>gpt-4\<close> is openai, \<open>claude-3-sonnet\<close> anthropic and
  \<open>llama3-8b-8192\<close> groq.
\<close>

theorem getProviderFromModel_rule:
  "getProviderFromModel model =
     (if (\<exists>p r. model = p @ ''llama'' @ r) \<or> (\<exists>p r. model = p @ ''mixtral'' @ r) then ''groq''
      else if (\<exists>p r. model = p @ ''gpt'' @ r) then ''openai''
      else if (\<exists>p r. model = p @ ''claude'' @ r) then ''anthropic''
      else ''groq'')
   \<and> getProviderFromModel ''gpt-4'' = ''openai''
   \<and> getProviderFromModel ''claude-3-sonnet'' = ''anthropic''
   \<and> getProviderFromModel ''llama3-8b-8192'' = ''groq''"
proof -
  have "getProviderFromModel ''gpt-4'' = ''openai''"
    by (simp add: getProviderFromModel_def)
  moreover have "getProviderFromModel ''claude-3-sonnet'' = ''anthropic''"
    by (simp add: getProviderFromModel_def)
  moreover have "getProviderFromModel ''llama3-8b-8192'' = ''groq''"
    by (simp add: getProviderFromModel_def)
  moreover have "getProviderFromModel model =
     (if (\<exists>p r. model = p @ ''llama'' @ r) \<or> (\<exists>p r. model = p @ ''mixtral'' @ r) then ''groq''
      else if (\<exists>p r. model = p @ ''gpt'' @ r) then ''openai''
      else if (\<exists>p r. model = p @ ''claude'' @ r) then ''anthropic''
      else ''groq'')"
    unfolding getProviderFromModel_def includes_iff by simp
  ultimately show ?thesis by blast
qed

section \<open>ModelManager\<close>

lemma getModelConfig_not_Undefined: "getModelConfig modelId \<noteq> Undefined"
  by (simp add: getModelConfig_def or_obj_def js_get_def MODEL_REGISTRY_def
      split: option.splits js_prop.splits)

text \<open>
  Claim C8. For each of the four supported strategies and each of the four complexity
  buckets, the manager built for the strategy holds a strategy table, and the model the table
  resolves the bucket to is an own key of the model registry.
\<close>

theorem strategies_resolve_in_registry:
  "\<forall>s \<in> set [''COST_OPTIMIZED'', ''QUALITY_OPTIMIZED'', ''SPEED_OPTIMIZED'', ''BALANCED''].
   \<forall>c \<in> set [''SHORT'', ''MEDIUM'', ''LONG'', ''VERY_LONG''].
     \<exists>tbl m. models (ModelManager s) = Own tbl
           \<and> getModelForComplexity tbl c = Own m
           \<and> m \<in> set getAvailableModels
           \<and> js_get MODEL_REGISTRY m \<noteq> Undefined \<and> js_get MODEL_REGISTRY m \<noteq> Inherited"
  by (simp add: ModelManager_def MODEL_SELECTION_STRATEGIES_def js_get_def or_obj_def
      getModelForComplexity_def or_str_def getAvailableModels_def MODEL_REGISTRY_def)

theorem strategies_resolve_in_registry_witness:
  "''QUALITY_OPTIMIZED'' \<in> set [''COST_OPTIMIZED'', ''QUALITY_OPTIMIZED'', ''SPEED_OPTIMIZED'', ''BALANCED'']
   \<and> ''VERY_LONG'' \<in> set [''SHORT'', ''MEDIUM'', ''LONG'', ''VERY_LONG'']
   \<and> (\<exists>tbl. models (ModelManager ''QUALITY_OPTIMIZED'') = Own tbl
           \<and> getModelForComplexity tbl ''VERY_LONG'' = Own ''claude-3-sonnet'')
   \<and> ''claude-3-sonnet'' \<in> set getAvailableModels"
proof -
  have s: "''QUALITY_OPTIMIZED'' \<in> set [''COST_OPTIMIZED'', ''QUALITY_OPTIMIZED'', ''SPEED_OPTIMIZED'', ''BALANCED'']"
    by simp
  have c: "''VERY_LONG'' \<in> set [''SHORT'', ''MEDIUM'', ''LONG'', ''VERY_LONG'']"
    by simp
  from strategies_resolve_in_registry s c
  obtain tbl m where r: "models (ModelManager ''QUALITY_OPTIMIZED'') = Own tbl"
      "getModelForComplexity tbl ''VERY_LONG'' = Own m" "m \<in> set getAvailableModels"
    by blast
  have "models (ModelManager ''QUALITY_OPTIMIZED'') =
          Own [(''SHORT'', ''llama3-70b-8192''), (''MEDIUM'', ''llama3-70b-8192''),
               (''LONG'', ''mixtral-8x7b-32768''), (''VERY_LONG'', ''claude-3-sonnet'')]"
    by (simp add: ModelManager_def MODEL_SELECTION_STRATEGIES_def js_get_def or_obj_def)
  with r(1,2) have "m = ''claude-3-sonnet''"
    by (auto simp: getModelForComplexity_def js_get_def or_str_def)
  with r s c show ?thesis by blast
qed

text \<open>
  The cost of a registered model is the claimed sum, and an identifier that is neither
  registered nor the name of an inherited member costs what the default model costs.
\<close>

lemma estimateCost_known:
  "map_of MODEL_REGISTRY modelId = Some config \<Longrightarrow>
   estimateCost modelId inputTokens outputTokens =
     Some (inputTokens / 1000 * costPer1kTokens config
           + outputTokens / 1000 * (costPer1kTokens config * 2))"
  by (simp add: estimateCost_def getModelConfig_def js_get_def or_obj_def Let_def)

lemma estimateCost_unknown:
  "map_of MODEL_REGISTRY modelId = None \<Longrightarrow> modelId \<notin> set object_prototype_keys \<Longrightarrow>
   estimateCost modelId inputTokens outputTokens =
     estimateCost ''llama3-8b-8192'' inputTokens outputTokens"
proof -
  assume a: "map_of MODEL_REGISTRY modelId = None" "modelId \<notin> set object_prototype_keys"
  obtain c where c: "map_of MODEL_REGISTRY ''llama3-8b-8192'' = Some c"
    by (simp add: MODEL_REGISTRY_def)
  from a c show ?thesis
    by (simp add: estimateCost_def getModelConfig_def js_get_def or_obj_def)
qed

text \<open>
  Claim C9. The identifier \<open>toString\<close> is not a key of the registry, yet
  \<open>MODEL_REGISTRY["toString"]\<close> is the function every object inherits, so the fallback to
  the default model is not taken and the estimate is \<open>NaN\<close>, where the default model's rate
  gives \<open>0.00005 + 0.0001\<close>, the value found for \<open>llama3-8b-8192\<close>.
\<close>

theorem estimateCost_inherited_member:
  "map_of MODEL_REGISTRY ''toString'' = None
   \<and> estimateCost ''toString'' 1000 1000 = None
   \<and> estimateCost ''llama3-8b-8192'' 1000 1000 = Some (5 / 100000 + 1 / 10000)"
  by (simp add: estimateCost_def getModelConfig_def js_get_def or_obj_def
      MODEL_REGISTRY_def object_prototype_keys_def)

section \<open>ContextManager.processChatHistory\<close>

text \<open>
  Claim C7. The turns are flattened in order: each turn gives a user message with its user
  text, followed by an assistant message with its response exactly when the turn has a
  response (one that is present and not empty). The history with the turns
  \<open>{user: "a", response: "b"}\<close> and \<open>{user: "c"}\<close> gives user \<open>a\<close>, assistant \<open>b\<close>, user \<open>c\<close>.
\<close>

theorem processChatHistory_flattens:
  "processChatHistory (Some \<lparr>history_messages = Some turns\<rparr>) =
     concat (map (\<lambda>t. \<lparr>role = ''user'', content = user t\<rparr>
                        # (if has_response t
                           then [\<lparr>role = ''assistant'', content = the (response t)\<rparr>]
                           else [])) turns)
   \<and> processChatHistory
        (Some \<lparr>history_messages =
                 Some [\<lparr>user = ''a'', response = Some ''b''\<rparr>,
                       \<lparr>user = ''c'', response = None\<rparr>]\<rparr>) =
       [\<lparr>role = ''user'', content = ''a''\<rparr>, \<lparr>role = ''assistant'', content = ''b''\<rparr>,
        \<lparr>role = ''user'', content = ''c''\<rparr>]"
proof -
  have "flatten_turns turns =
     concat (map (\<lambda>t. \<lparr>role = ''user'', content = user t\<rparr>
                        # (if has_response t
                           then [\<lparr>role = ''assistant'', content = the (response t)\<rparr>]
                           else [])) turns)"
    by (induction turns) (auto simp: has_response_def split: option.splits)
  then show ?thesis
    by (simp add: processChatHistory_def)
qed

section \<open>ContextManager.selectContextMessages\<close>

text \<open>
  With a limit \<open>N\<close> of at least 3 and more than \<open>N\<close> messages, each strategy selects what
  its name says: the last \<open>N\<close>; the first and the last \<open>N - 1\<close>; the first, the middle and
  the last \<open>N - 2\<close>; the last 2. Whatever the strategy's name, at most \<open>N\<close> messages are
  selected.
\<close>

lemma slice_from_last:
  "0 < k \<Longrightarrow> k \<le> int (length xs) \<Longrightarrow>
   slice_from xs (- k) = drop (length xs - nat k) xs \<and> int (length (slice_from xs (- k))) = k"
  by (auto simp: slice_from_def Let_def nat_diff_distrib' max_def)

lemma select_within_limit:
  assumes "3 \<le> N" and "N < int (length messages)"
  shows "selectRecentMessages messages N = drop (length messages - nat N) messages"
    and "selectSmartMessages messages N
           = messages ! 0 # drop (length messages - nat (N - 1)) messages"
    and "selectComprehensiveMessages messages N
           = messages ! 0 # messages ! (length messages div 2)
               # drop (length messages - nat (N - 2)) messages"
    and "selectMinimalMessages messages N = drop (length messages - 2) messages"
    and "int (length (selectByStrategy strat messages N)) \<le> N"
proof -
  show r: "selectRecentMessages messages N = drop (length messages - nat N) messages"
    using assms slice_from_last [of N messages] by (simp add: selectRecentMessages_def)
  have s: "slice_from messages (- N + 1) = drop (length messages - nat (N - 1)) messages
           \<and> int (length (slice_from messages (- N + 1))) = N - 1"
    using assms slice_from_last [of "N - 1" messages] by simp
  show sm: "selectSmartMessages messages N
           = messages ! 0 # drop (length messages - nat (N - 1)) messages"
    using assms s by (simp add: selectSmartMessages_def)
  have c: "slice_from messages (- N + 2) = drop (length messages - nat (N - 2)) messages
           \<and> int (length (slice_from messages (- N + 2))) = N - 2"
    using assms slice_from_last [of "N - 2" messages] by simp
  show co: "selectComprehensiveMessages messages N
           = messages ! 0 # messages ! (length messages div 2)
               # drop (length messages - nat (N - 2)) messages"
    using assms c by (simp add: selectComprehensiveMessages_def)
  show mi: "selectMinimalMessages messages N = drop (length messages - 2) messages"
    using assms slice_from_last [of 2 messages] by (simp add: selectMinimalMessages_def)
  show "int (length (selectByStrategy strat messages N)) \<le> N"
    using assms r sm co mi by (auto simp: selectByStrategy_def)
qed

text \<open>
  Claim C3. With a limit below 3 the selections return more than the limit. With the limit 2
  the comprehensive strategy (model \<open>gpt-4\<close>) returns the first and the middle message
  followed by all three messages, because \<open>slice(-2 + 2)\<close> is \<open>slice(0)\<close>; with the limit 1 the
  smart strategy (model \<open>llama3-70b-8192\<close>) returns the first message followed by all three;
  with the limit 0 the recent strategy (model \<open>llama3-8b-8192\<close>) returns all three.
\<close>

theorem selectContextMessages_small_limit:
  "selectContextMessages [''m0'', ''m1'', ''m2''] ''gpt-4'' 2
     = Inr [''m0'', ''m1'', ''m0'', ''m1'', ''m2'']
   \<and> selectContextMessages [''m0'', ''m1'', ''m2''] ''llama3-70b-8192'' 1
     = Inr [''m0'', ''m0'', ''m1'', ''m2'']
   \<and> selectContextMessages [''m0'', ''m1'', ''m2''] ''llama3-8b-8192'' 0
     = Inr [''m0'', ''m1'', ''m2'']"
  by (simp add: selectContextMessages_def getModelConfig_def js_get_def or_obj_def
      MODEL_REGISTRY_def selectByStrategy_def selectComprehensiveMessages_def
      selectSmartMessages_def selectRecentMessages_def slice_from_def)

section \<open>ContextManager.optimizeContext\<close>

lemma estimateTokenCount_div: "estimateTokenCount s = (int (length s) + 3) div 4"
proof -
  have "rat_of_nat (length s) / 4 = rat_of_int (int (length s)) / rat_of_int 4"
    by simp
  then have "estimateTokenCount s = - (- int (length s) div 4)"
    unfolding estimateTokenCount_def by (simp only: ceiling_divide_eq_div)
  then show ?thesis by presburger
qed

lemma estimateTokenCount_nonneg: "0 \<le> estimateTokenCount s"
  by (simp add: estimateTokenCount_div)

lemma totalTokens_of_Cons:
  "totalTokens_of (m # ms) = estimateTokenCount (content m) + totalTokens_of ms"
  by (simp add: totalTokens_of_def)

lemma truncated_tokens:
  assumes "0 \<le> r"
  shows "estimateTokenCount (substring0 s (r * 4) @ ''...'') \<le> r + 1"
proof -
  have "int (length (substring0 s (r * 4))) \<le> r * 4"
    using assms by (simp add: substring0_def)
  then show ?thesis
    by (simp add: estimateTokenCount_div)
qed

lemma optimizeLoop_bound:
  "0 \<le> B \<Longrightarrow> tot = totalTokens_of acc \<Longrightarrow> tot \<le> B \<Longrightarrow>
   totalTokens_of (optimizeLoop B pending tot acc) \<le> B + 1"
proof (induction pending arbitrary: tot acc)
  case Nil
  then show ?case by simp
next
  case (Cons msg pending)
  show ?case
  proof (cases "tot + estimateTokenCount (content msg) \<le> B")
    case True
    have "totalTokens_of (optimizeLoop B pending (tot + estimateTokenCount (content msg)) (msg # acc)) \<le> B + 1"
      using Cons.prems True by (intro Cons.IH) (simp_all add: totalTokens_of_Cons)
    with True show ?thesis by (simp add: Let_def)
  next
    case False
    have r: "0 \<le> B - tot" using Cons.prems by simp
    have "estimateTokenCount (substring0 (content msg) ((B - tot) * 4) @ ''...'') \<le> B - tot + 1"
      by (rule truncated_tokens [OF r])
    with False Cons.prems show ?thesis
      by (simp add: Let_def totalTokens_of_Cons)
  qed
qed

lemma maxContextTokens_of_nonneg: "0 \<le> maxContextTokens_of n"
  by (simp add: maxContextTokens_of_def times_0_7_def)

text \<open>
  The total of the estimated token counts of the result is at most one above the budget
  \<open>Math.floor(maxTokens * 0.7)\<close>.
\<close>

lemma optimizeContext_total_le_budget_plus_one:
  "totalTokens_of (optimizeContext contextMessages model maxTokens)
     \<le> maxContextTokens_of maxTokens + 1"
  unfolding optimizeContext_def
  by (rule optimizeLoop_bound) (simp_all add: maxContextTokens_of_nonneg totalTokens_of_def)

lemma bit_length_le: "n < 2 ^ k \<Longrightarrow> bit_length n \<le> k"
proof (induction k arbitrary: n)
  case 0
  then show ?case by (simp add: bit_length.simps [of 0])
next
  case (Suc k)
  then have "n div 2 < 2 ^ k" by auto
  then have "bit_length (n div 2) \<le> k" by (rule Suc.IH)
  then show ?case by (simp add: bit_length.simps [of n])
qed

lemma bit_length_gt: "2 ^ k \<le> n \<Longrightarrow> k < bit_length n"
proof (induction k arbitrary: n)
  case 0
  then show ?case by (simp add: bit_length.simps [of n])
next
  case (Suc k)
  then have "2 ^ k \<le> n div 2" by auto
  then have "k < bit_length (n div 2)" by (rule Suc.IH)
  moreover have "(0::nat) < 2 ^ Suc k" by simp
  then have "n \<noteq> 0" using Suc.prems by linarith
  ultimately show ?case by (simp add: bit_length.simps [of n])
qed

lemma bit_length_eq: "2 ^ k \<le> n \<Longrightarrow> n < 2 ^ Suc k \<Longrightarrow> bit_length n = Suc k"
  using bit_length_le [of n "Suc k"] bit_length_gt [of k n] by simp

lemma maxContextTokens_of_100: "maxContextTokens_of 100 = 70"
proof -
  have "bit_length (100 * 6305039478318694) = Suc 59"
    by (rule bit_length_eq) simp_all
  then have "round_to_53_bits (100 * 6305039478318694) = 630503947831869440"
    by (simp add: round_to_53_bits_def Let_def)
  then show ?thesis
    by (simp add: maxContextTokens_of_def times_0_7_def)
qed

lemma maxContextTokens_of_90: "maxContextTokens_of 90 = 62"
proof -
  have "bit_length (90 * 6305039478318694) = Suc 58"
    by (rule bit_length_eq) simp_all
  then have "round_to_53_bits (90 * 6305039478318694) = 567453553048682432"
    by (simp add: round_to_53_bits_def Let_def)
  then show ?thesis
    by (simp add: maxContextTokens_of_def times_0_7_def floor_eq_iff)
qed

lemma optimizeLoop_truncates:
  assumes "length c = 284"
  shows "optimizeLoop 70 [\<lparr>role = r, content = c\<rparr>] 0 []
           = [\<lparr>role = r, content = take 280 c @ ''...''\<rparr>]"
  using assms by (simp add: estimateTokenCount_div Let_def substring0_def)

lemma truncated_total:
  assumes "length c = 284"
  shows "totalTokens_of [\<lparr>role = r, content = take 280 c @ ''...''\<rparr>] = 71"
  using assms by (simp add: totalTokens_of_def estimateTokenCount_div)

text \<open>
  Claim C1. With \<open>maxTokens = 100\<close> the budget is 70 tokens. A single message of 284
  characters (71 tokens) does not fit; it is cut to \<open>70 * 4 = 280\<close> characters, the ellipsis
  makes 283, and the result counts 71 tokens, more than 70% of 100.
\<close>

theorem optimizeContext_truncation_exceeds_budget:
  "map (\<lambda>m. length (content m))
       (optimizeContext [\<lparr>role = ''user'', content = replicate 284 CHR ''a''\<rparr>]
          ''llama3-8b-8192'' 100) = [283]
   \<and> totalTokens_of
       (optimizeContext [\<lparr>role = ''user'', content = replicate 284 CHR ''a''\<rparr>]
          ''llama3-8b-8192'' 100) = 71
   \<and> 7 / 10 * rat_of_nat 100
       < rat_of_int (totalTokens_of
           (optimizeContext [\<lparr>role = ''user'', content = replicate 284 CHR ''a''\<rparr>]
              ''llama3-8b-8192'' 100))"
proof -
  define c where "c = replicate 284 CHR ''a''"
  have len: "length c = 284" by (simp add: c_def)
  have out: "optimizeContext [\<lparr>role = ''user'', content = c\<rparr>] ''llama3-8b-8192'' 100
               = [\<lparr>role = ''user'', content = take 280 c @ ''...''\<rparr>]"
    unfolding optimizeContext_def maxContextTokens_of_100
    using optimizeLoop_truncates [OF len] by simp
  have tot: "totalTokens_of [\<lparr>role = ''user'', content = take 280 c @ ''...''\<rparr>] = 71"
    by (rule truncated_total [OF len])
  have "map (\<lambda>m. length (content m)) [\<lparr>role = ''user'', content = take 280 c @ ''...''\<rparr>] = [283]"
    using len by simp
  moreover have "7 / 10 * rat_of_nat 100 < rat_of_int 71" by simp
  ultimately show ?thesis
    unfolding c_def [symmetric] out tot by simp
qed

section \<open>TextComplexityAnalyzer.analyze\<close>

lemma toLowerCase_append: "toLowerCase (a @ b) = toLowerCase a @ toLowerCase b"
  by (simp add: toLowerCase_def)

lemma analyticalKeywords_lower:
  "k \<in> set analyticalKeywords \<Longrightarrow> toLowerCase k = k \<and> k \<noteq> [] \<and> length k \<le> 9"
  by (auto simp: analyticalKeywords_def toLowerCase_def lower_char_def)

lemma hasAnalyticalContent_iff:
  "list_ex (\<lambda>keyword. includes_str (toLowerCase text) keyword) analyticalKeywords
     \<longleftrightarrow> (\<exists>k \<in> set analyticalKeywords. \<exists>p r. toLowerCase text = p @ k @ r)"
  by (simp add: list_ex_iff includes_iff)

lemma analyze_formula:
  "complexity (analyze text) =
     (if length text \<le> 100
      then (if (\<exists>k \<in> set analyticalKeywords. \<exists>p r. toLowerCase text = p @ k @ r)
            then ''MEDIUM'' else ''SHORT'')
      else if length text \<le> 500 then ''MEDIUM''
      else if length text \<le> 1000 then ''LONG''
      else ''VERY_LONG'')"
proof (cases "text = []")
  case True
  have "\<not> (\<exists>k \<in> set analyticalKeywords. \<exists>p r. toLowerCase [] = p @ k @ r)"
    using analyticalKeywords_lower by (auto simp: toLowerCase_def)
  with True show ?thesis by (simp add: analyze_def)
next
  case False
  then show ?thesis
    unfolding analyze_def Let_def hasAnalyticalContent_iff TEXT_LENGTH_THRESHOLDS_def
    by simp
qed

lemma keyword_added:
  assumes k: "k \<in> set analyticalKeywords" and len: "length (pre @ post) \<le> 100"
  shows "complexity (analyze (pre @ k @ post)) = ''MEDIUM''"
proof -
  have low: "toLowerCase (pre @ k @ post) = toLowerCase pre @ k @ toLowerCase post"
    using analyticalKeywords_lower [OF k] by (simp add: toLowerCase_append)
  then have has: "\<exists>w \<in> set analyticalKeywords. \<exists>p r. toLowerCase (pre @ k @ post) = p @ w @ r"
    using k by blast
  have "length (pre @ k @ post) \<le> 500"
    using analyticalKeywords_lower [OF k] len by simp
  with has show ?thesis
    by (simp only: analyze_formula) simp
qed

text \<open>
  Claim C2. The complexity is SHORT up to 100 characters, MEDIUM up to 500, LONG up to 1000
  and VERY_LONG beyond, with SHORT upgraded to MEDIUM when the lowercased text contains an
  analytical keyword. So a text of at most 100 characters without such a keyword is SHORT,
  and the text with a keyword put in at any place is MEDIUM.
\<close>

theorem analyze_complexity:
  "complexity (analyze text) =
     (if length text \<le> 100
      then (if (\<exists>k \<in> set analyticalKeywords. \<exists>p r. toLowerCase text = p @ k @ r)
            then ''MEDIUM'' else ''SHORT'')
      else if length text \<le> 500 then ''MEDIUM''
      else if length text \<le> 1000 then ''LONG''
      else ''VERY_LONG'')
   \<and> (length (pre @ post) \<le> 100
        \<and> \<not> (\<exists>k \<in> set analyticalKeywords. \<exists>p r. toLowerCase (pre @ post) = p @ k @ r)
        \<longrightarrow> complexity (analyze (pre @ post)) = ''SHORT''
            \<and> (\<forall>k \<in> set analyticalKeywords.
                  complexity (analyze (pre @ k @ post)) = ''MEDIUM''))"
proof (intro conjI impI)
  show "complexity (analyze text) =
     (if length text \<le> 100
      then (if (\<exists>k \<in> set analyticalKeywords. \<exists>p r. toLowerCase text = p @ k @ r)
            then ''MEDIUM'' else ''SHORT'')
      else if length text \<le> 500 then ''MEDIUM''
      else if length text \<le> 1000 then ''LONG''
      else ''VERY_LONG'')"
    by (rule analyze_formula)
next
  assume a: "length (pre @ post) \<le> 100
        \<and> \<not> (\<exists>k \<in> set analyticalKeywords. \<exists>p r. toLowerCase (pre @ post) = p @ k @ r)"
  then show "complexity (analyze (pre @ post)) = ''SHORT''"
    by (simp only: analyze_formula) simp
  from a show "\<forall>k \<in> set analyticalKeywords. complexity (analyze (pre @ k @ post)) = ''MEDIUM''"
    using keyword_added by blast
qed

theorem analyze_complexity_witness:
  "length (''What is '' @ '' this'') \<le> 100
   \<and> \<not> (\<exists>k \<in> set analyticalKeywords. \<exists>p r. toLowerCase (''What is '' @ '' this'') = p @ k @ r)
   \<and> complexity (analyze (''What is '' @ '' this'')) = ''SHORT''
   \<and> ''explain'' \<in> set analyticalKeywords
   \<and> complexity (analyze (''What is '' @ ''explain'' @ '' this'')) = ''MEDIUM''"
proof -
  have l: "length (''What is '' @ '' this'') \<le> 100" by simp
  have "\<not> list_ex (\<lambda>keyword. includes_str (toLowerCase (''What is '' @ '' this'')) keyword)
            analyticalKeywords"
    by (simp add: analyticalKeywords_def toLowerCase_def lower_char_def)
  then have n: "\<not> (\<exists>k \<in> set analyticalKeywords.
                    \<exists>p r. toLowerCase (''What is '' @ '' this'') = p @ k @ r)"
    by (simp only: hasAnalyticalContent_iff) simp
  have k: "''explain'' \<in> set analyticalKeywords"
    by (simp add: analyticalKeywords_def)
  from analyze_complexity [of "''What is '' @ '' this''" "''What is ''" "'' this''"] l n k
  show ?thesis by blast
qed

section \<open>TaskClassifier.classifyQuery\<close>














text \<open>
  Claim C10. \<open>getModelForTask\<close> is the constant \<open>llama3-8b-8192\<close>, so the model of the
  classification of a non-empty query is \<open>llama3-8b-8192\<close> whatever the manager (and its
  strategy) and whatever the classification call returns.
\<close>

theorem classifyQuery_model_constant:
  "getModelForTask task complexity_level = ''llama3-8b-8192''
   \<and> (queryText \<noteq> [] \<longrightarrow>
        cls_model (fst (classifyQuery net cg modelManager queryText)) = Own ''llama3-8b-8192'')"
  by (simp add: getModelForTask_def classifyQuery_def Let_def split: prod.splits)

theorem classifyQuery_model_constant_witness:
  "''Summarize this'' \<noteq> []
   \<and> cls_model (fst (classifyQuery \<lparr>respond = (\<lambda>req. Inl ''Failed to fetch''), sent = []\<rparr>
                        (\<lambda>v. False)
                        (ModelManager ''QUALITY_OPTIMIZED'') ''Summarize this''))
       = Own ''llama3-8b-8192''"
proof -
  have n: "''Summarize this'' \<noteq> []" by simp
  from classifyQuery_model_constant
         [of _ _ "''Summarize this''"
             "\<lparr>respond = (\<lambda>req. Inl ''Failed to fetch''), sent = []\<rparr>" "\<lambda>v. False"
             "ModelManager ''QUALITY_OPTIMIZED''"] n
  show ?thesis by blast
qed

section \<open>LLMClient.callLLM\<close>

lemma createErrorResponse_fields:
  "createErrorResponse err details params ''success'' = Some (JBool False)
   \<and> createErrorResponse err details params ''error'' = Some (JStr err)
   \<and> createErrorResponse err details params ''details'' = Some (JStr details)
   \<and> createErrorResponse err details params ''temperature'' = Some (JNum (p_temperature params))
   \<and> createErrorResponse err details params ''model'' = Some (JStr (p_model params))
   \<and> createErrorResponse err details params ''task'' = Some (JStr (p_task params))
   \<and> createErrorResponse err details params ''complexity'' = Some (JStr (p_complexity params))
   \<and> createErrorResponse err details params ''reason'' = Some (JStr (p_reason params))
   \<and> createErrorResponse err details params ''contextMessages''
       = Some (JNum (of_nat (context_count params)))"
  by (simp add: createErrorResponse_def metadata_def)

lemma createSuccessResponse_fields:
  "createSuccessResponse result params ''success'' = Some (JBool True)
   \<and> createSuccessResponse result params ''temperature'' = Some (JNum (p_temperature params))
   \<and> createSuccessResponse result params ''model'' = Some (JStr (p_model params))
   \<and> createSuccessResponse result params ''task'' = Some (JStr (p_task params))
   \<and> createSuccessResponse result params ''complexity'' = Some (JStr (p_complexity params))
   \<and> createSuccessResponse result params ''reason'' = Some (JStr (p_reason params))
   \<and> createSuccessResponse result params ''contextMessages''
       = Some (JNum (of_nat (context_count params)))"
  by (simp add: createSuccessResponse_def metadata_def map_add_def)

lemma createSuccessResponse_payload:
  "k \<notin> set [''temperature'', ''model'', ''task'', ''complexity'', ''reason'',
              ''contextMessages'', ''success'']
   \<Longrightarrow> createSuccessResponse result params k = spread result k"
  by (simp add: createSuccessResponse_def metadata_def map_add_def)

text \<open>
  Claim C4, as stated, fails on a 2xx response whose body does not parse as JSON: the
  exception of \<open>json()\<close> is caught and the envelope is an error envelope.
\<close>

theorem callLLM_2xx_unparsable_body:
  "ok \<lparr>status = 200, text_body = Inr ''<html>'', json_body = Inl ''Unexpected token''\<rparr>
   \<and> callLLM
        (\<lambda>req. Inr \<lparr>status = 200, text_body = Inr ''<html>'',
                     json_body = Inl ''Unexpected token''\<rparr>)
        LLMClient
        \<lparr>p_model = ''llama3-8b-8192'', p_messages = [], p_maxTokens = 10, p_temperature = 0,
         p_task = ''LLM_Default'', p_complexity = ''SHORT'', p_reason = ''Test'',
         p_contextMessages = Some []\<rparr>
     = Inr (createErrorResponse ''LLM call error'' ''Unexpected token''
        \<lparr>p_model = ''llama3-8b-8192'', p_messages = [], p_maxTokens = 10, p_temperature = 0,
         p_task = ''LLM_Default'', p_complexity = ''SHORT'', p_reason = ''Test'',
         p_contextMessages = Some []\<rparr>)
   \<and> createErrorResponse ''LLM call error'' ''Unexpected token''
        \<lparr>p_model = ''llama3-8b-8192'', p_messages = [], p_maxTokens = 10, p_temperature = 0,
         p_task = ''LLM_Default'', p_complexity = ''SHORT'', p_reason = ''Test'',
         p_contextMessages = Some []\<rparr> ''success'' = Some (JBool False)"
  by (simp add: ok_def callLLM_def callLLM_try_def createErrorResponse_def metadata_def)

text \<open>
  Claim C4, amended. \<open>callLLM\<close> never throws. It returns an error envelope
  (\<open>success: false\<close>, the error text under \<open>details\<close>, the request metadata) when \<open>fetch\<close> is
  rejected, when the response is not 2xx, and when the body of the response cannot be read
  (as text for a non-2xx response, as JSON for a 2xx one). It returns a success envelope
  (\<open>success: true\<close>, the request metadata, and every other key from the parsed body) on a 2xx
  response whose body parses as JSON.
\<close>

theorem callLLM_envelopes:
  "(\<exists>env. callLLM fetch client params = Inr env)
   \<and> (\<forall>msg. fetch (callLLM_request client params) = Inl msg \<longrightarrow>
         callLLM fetch client params
           = Inr (createErrorResponse ''LLM call error'' msg params))
   \<and> (\<forall>resp. fetch (callLLM_request client params) = Inr resp \<and> \<not> ok resp \<longrightarrow>
         callLLM fetch client params
           = Inr (case text_body resp of
                    Inr errorText \<Rightarrow> createErrorResponse ''LLM call failed'' errorText params
                  | Inl msg \<Rightarrow> createErrorResponse ''LLM call error'' msg params))
   \<and> (\<forall>resp. fetch (callLLM_request client params) = Inr resp \<and> ok resp \<longrightarrow>
         callLLM fetch client params
           = Inr (case json_body resp of
                    Inr result \<Rightarrow> createSuccessResponse result params
                  | Inl msg \<Rightarrow> createErrorResponse ''LLM call error'' msg params))
   \<and> (\<forall>err details.
         createErrorResponse err details params ''success'' = Some (JBool False)
         \<and> createErrorResponse err details params ''error'' = Some (JStr err)
         \<and> createErrorResponse err details params ''details'' = Some (JStr details)
         \<and> createErrorResponse err details params ''temperature''
             = Some (JNum (p_temperature params))
         \<and> createErrorResponse err details params ''model'' = Some (JStr (p_model params))
         \<and> createErrorResponse err details params ''task'' = Some (JStr (p_task params))
         \<and> createErrorResponse err details params ''complexity''
             = Some (JStr (p_complexity params))
         \<and> createErrorResponse err details params ''reason'' = Some (JStr (p_reason params))
         \<and> createErrorResponse err details params ''contextMessages''
             = Some (JNum (of_nat (context_count params))))
   \<and> (\<forall>result.
         createSuccessResponse result params ''success'' = Some (JBool True)
         \<and> createSuccessResponse result params ''temperature''
             = Some (JNum (p_temperature params))
         \<and> createSuccessResponse result params ''model'' = Some (JStr (p_model params))
         \<and> createSuccessResponse result params ''task'' = Some (JStr (p_task params))
         \<and> createSuccessResponse result params ''complexity''
             = Some (JStr (p_complexity params))
         \<and> createSuccessResponse result params ''reason'' = Some (JStr (p_reason params))
         \<and> createSuccessResponse result params ''contextMessages''
             = Some (JNum (of_nat (context_count params)))
         \<and> (\<forall>k. k \<notin> set [''temperature'', ''model'', ''task'', ''complexity'', ''reason'',
                           ''contextMessages'', ''success'']
               \<longrightarrow> createSuccessResponse result params k = spread result k))"
proof (intro conjI allI impI)
  show "\<exists>env. callLLM fetch client params = Inr env"
    by (simp add: callLLM_def split: sum.splits)
next
  fix msg
  assume "fetch (callLLM_request client params) = Inl msg"
  then show "callLLM fetch client params
               = Inr (createErrorResponse ''LLM call error'' msg params)"
    by (simp add: callLLM_def callLLM_try_def)
next
  fix resp
  assume "fetch (callLLM_request client params) = Inr resp \<and> \<not> ok resp"
  then show "callLLM fetch client params
           = Inr (case text_body resp of
                    Inr errorText \<Rightarrow> createErrorResponse ''LLM call failed'' errorText params
                  | Inl msg \<Rightarrow> createErrorResponse ''LLM call error'' msg params)"
    by (simp add: callLLM_def callLLM_try_def split: sum.splits)
next
  fix resp
  assume "fetch (callLLM_request client params) = Inr resp \<and> ok resp"
  then show "callLLM fetch client params
           = Inr (case json_body resp of
                    Inr result \<Rightarrow> createSuccessResponse result params
                  | Inl msg \<Rightarrow> createErrorResponse ''LLM call error'' msg params)"
    by (simp add: callLLM_def callLLM_try_def split: sum.splits)
next
  fix result k
  assume "k \<notin> set [''temperature'', ''model'', ''task'', ''complexity'', ''reason'',
                    ''contextMessages'', ''success'']"
  then show "createSuccessResponse result params k = spread result k"
    by (rule createSuccessResponse_payload)
qed (simp_all only: createErrorResponse_fields createSuccessResponse_fields)

theorem callLLM_envelopes_witness:
  "callLLM
     (\<lambda>req. Inr \<lparr>status = 200, text_body = Inr ''(body)'',
                  json_body = Inr (JObj [(''id'', JStr ''r1''), (''model'', JStr ''other'')])\<rparr>)
     LLMClient
     \<lparr>p_model = ''llama3-8b-8192'', p_messages = [], p_maxTokens = 10, p_temperature = 0,
      p_task = ''LLM_Default'', p_complexity = ''SHORT'', p_reason = ''Test'',
      p_contextMessages = Some []\<rparr>
   = Inr (createSuccessResponse (JObj [(''id'', JStr ''r1''), (''model'', JStr ''other'')])
      \<lparr>p_model = ''llama3-8b-8192'', p_messages = [], p_maxTokens = 10, p_temperature = 0,
       p_task = ''LLM_Default'', p_complexity = ''SHORT'', p_reason = ''Test'',
       p_contextMessages = Some []\<rparr>)
   \<and> createSuccessResponse (JObj [(''id'', JStr ''r1''), (''model'', JStr ''other'')])
      \<lparr>p_model = ''llama3-8b-8192'', p_messages = [], p_maxTokens = 10, p_temperature = 0,
       p_task = ''LLM_Default'', p_complexity = ''SHORT'', p_reason = ''Test'',
       p_contextMessages = Some []\<rparr> ''id'' = Some (JStr ''r1'')
   \<and> createSuccessResponse (JObj [(''id'', JStr ''r1''), (''model'', JStr ''other'')])
      \<lparr>p_model = ''llama3-8b-8192'', p_messages = [], p_maxTokens = 10, p_temperature = 0,
       p_task = ''LLM_Default'', p_complexity = ''SHORT'', p_reason = ''Test'',
       p_contextMessages = Some []\<rparr> ''model'' = Some (JStr ''llama3-8b-8192'')"
proof -
  define resp where
    "resp = \<lparr>status = 200, text_body = (Inr ''(body)'' :: string + string),
             json_body = (Inr (JObj [(''id'', JStr ''r1''), (''model'', JStr ''other'')])
                           :: string + json)\<rparr>"
  define params where
    "params = \<lparr>p_model = ''llama3-8b-8192'', p_messages = [], p_maxTokens = 10,
               p_temperature = 0, p_task = ''LLM_Default'', p_complexity = ''SHORT'',
               p_reason = ''Test'', p_contextMessages = Some []\<rparr>"
  have o: "ok resp"
    by (simp add: resp_def ok_def)
  have k: "''id'' \<notin> set [''temperature'', ''model'', ''task'', ''complexity'', ''reason'',
                          ''contextMessages'', ''success'']"
    by simp
  note t = callLLM_envelopes [of "\<lambda>req. Inr resp" LLMClient params]
  from t have a: "\<forall>r. (Inr resp :: string + http_response) = Inr r \<and> ok r \<longrightarrow>
         callLLM (\<lambda>req. Inr resp) LLMClient params
           = Inr (case json_body r of
                    Inr result \<Rightarrow> createSuccessResponse result params
                  | Inl msg \<Rightarrow> createErrorResponse ''LLM call error'' msg params)"
    by (elim conjE) assumption
  from t have b: "\<forall>result.
         createSuccessResponse result params ''success'' = Some (JBool True)
         \<and> createSuccessResponse result params ''temperature''
             = Some (JNum (p_temperature params))
         \<and> createSuccessResponse result params ''model'' = Some (JStr (p_model params))
         \<and> createSuccessResponse result params ''task'' = Some (JStr (p_task params))
         \<and> createSuccessResponse result params ''complexity''
             = Some (JStr (p_complexity params))
         \<and> createSuccessResponse result params ''reason'' = Some (JStr (p_reason params))
         \<and> createSuccessResponse result params ''contextMessages''
             = Some (JNum (of_nat (context_count params)))
         \<and> (\<forall>k. k \<notin> set [''temperature'', ''model'', ''task'', ''complexity'', ''reason'',
                           ''contextMessages'', ''success'']
               \<longrightarrow> createSuccessResponse result params k = spread result k)"
    by (elim conjE) assumption
  from a o have "callLLM (\<lambda>req. Inr resp) LLMClient params
          = Inr (case json_body resp of
                    Inr result \<Rightarrow> createSuccessResponse result params
                  | Inl msg \<Rightarrow> createErrorResponse ''LLM call error'' msg params)"
    by simp
  then have 1: "callLLM (\<lambda>req. Inr resp) LLMClient params
          = Inr (createSuccessResponse (JObj [(''id'', JStr ''r1''), (''model'', JStr ''other'')])
                   params)"
    by (simp add: resp_def)
  from b k
  have "createSuccessResponse (JObj [(''id'', JStr ''r1''), (''model'', JStr ''other'')]) params
          ''id'' = spread (JObj [(''id'', JStr ''r1''), (''model'', JStr ''other'')]) ''id''"
    by (elim allE conjE impE) assumption+
  then have 2: "createSuccessResponse (JObj [(''id'', JStr ''r1''), (''model'', JStr ''other'')])
                  params ''id'' = Some (JStr ''r1'')"
    by simp
  from b
  have "createSuccessResponse (JObj [(''id'', JStr ''r1''), (''model'', JStr ''other'')]) params
          ''model'' = Some (JStr (p_model params))"
    by (elim allE conjE) assumption
  then have 3: "createSuccessResponse (JObj [(''id'', JStr ''r1''), (''model'', JStr ''other'')])
                  params ''model'' = Some (JStr ''llama3-8b-8192'')"
    by (simp add: params_def)
  from 1 2 3 show ?thesis
    unfolding resp_def params_def by simp
qed

end
